theory Spec2Isabelle
  imports Complex_Main "HOL-Library.Sublist"
begin

section \<open>Data model\<close>

text \<open>
  \<^verbatim>\<open>src/domain/value_objects/resource_type.py\<close>: the closed enumeration of resource
  types. \<open>rt_value\<close> is the enum member's \<^verbatim>\<open>.value\<close>.
\<close>

datatype ResourceType =
  ALB | CLOUDFRONT | API_GATEWAY_REST | API_GATEWAY_HTTP
  | APPSYNC | COGNITO | APP_RUNNER | VERIFIED_ACCESS

fun rt_value :: "ResourceType \<Rightarrow> string" where
  "rt_value ALB = ''APPLICATION_LOAD_BALANCER''"
| "rt_value CLOUDFRONT = ''CLOUDFRONT_DISTRIBUTION''"
| "rt_value API_GATEWAY_REST = ''API_GATEWAY_REST_API''"
| "rt_value API_GATEWAY_HTTP = ''API_GATEWAY_HTTP_API''"
| "rt_value APPSYNC = ''APPSYNC_GRAPHQL_API''"
| "rt_value COGNITO = ''COGNITO_USER_POOL''"
| "rt_value APP_RUNNER = ''APP_RUNNER_SERVICE''"
| "rt_value VERIFIED_ACCESS = ''VERIFIED_ACCESS_INSTANCE''"

text \<open>
  \<^verbatim>\<open>src/domain/entities/web_acl.py\<close>. The fields carry the prefix \<open>acl_\<close> because
  \<^verbatim>\<open>Resource\<close> has fields of the same names. The scope is the string the source
  stores (\<^verbatim>\<open>"REGIONAL"\<close> or \<^verbatim>\<open>"CLOUDFRONT"\<close>).
\<close>

record WebACL =
  acl_arn :: string
  acl_name :: string
  acl_id :: string
  acl_scope :: string
  acl_region :: string
  acl_description :: "string option"
  acl_managed_by_firewall_manager :: bool

text \<open>
  Readings of \<^verbatim>\<open>datetime.utcnow()\<close> are values of an abstract clock.
\<close>

type_synonym timestamp = nat

text \<open>\<^verbatim>\<open>src/domain/entities/resource.py\<close>.\<close>

record Resource =
  arn :: string
  resource_type :: ResourceType
  region :: string
  account_id :: string
  name :: "string option"
  web_acl :: "WebACL option"
  fronted_by_resource_arn :: "string option"
  fronted_by_waf :: "WebACL option"
  fronted_by_notes :: "string option"
  is_public :: bool
  tags :: "(string \<times> string) list"
  scanned_at :: "timestamp option"

definition has_waf :: "Resource \<Rightarrow> bool" where
  "has_waf r = (web_acl r \<noteq> None)"

text \<open>
  \<^verbatim>\<open>if self.fronted_by_waf:\<close> tests the truth value of an optional \<^verbatim>\<open>WebACL\<close>. The
  dataclass defines neither \<^verbatim>\<open>__bool__\<close> nor \<^verbatim>\<open>__len__\<close>, so every instance is
  true and the test is \<^verbatim>\<open>is not None\<close>.
\<close>

definition truthy_acl :: "WebACL option \<Rightarrow> bool" where
  "truthy_acl w = (w \<noteq> None)"

definition is_compliant :: "Resource \<Rightarrow> bool" where
  "is_compliant r =
     (if has_waf r then True
      else if truthy_acl (fronted_by_waf r) then True
      else if resource_type r = CLOUDFRONT then False
      else if resource_type r = ALB \<and> is_public r then False
      else if resource_type r = API_GATEWAY_REST \<and> is_public r then False
      else if resource_type r = API_GATEWAY_HTTP then True
      else True)"

definition get_compliance_status :: "Resource \<Rightarrow> string" where
  "get_compliance_status r =
     (if has_waf r then ''COMPLIANT''
      else if truthy_acl (fronted_by_waf r) then ''COMPLIANT_FRONTED_BY_WAF''
      else if \<not> is_compliant r then ''NON_COMPLIANT''
      else ''COMPLIANT_NO_WAF_REQUIRED'')"

text \<open>
  The reference definition of the Compliance Evaluator, written from the words of the
  specification (section 4.5) and not from the code.
\<close>

definition spec_compliance_status :: "Resource \<Rightarrow> string" where
  "spec_compliance_status r =
     (case web_acl r of
        Some _ \<Rightarrow> ''COMPLIANT''
      | None \<Rightarrow>
          (case fronted_by_waf r of
             Some _ \<Rightarrow> ''COMPLIANT_FRONTED_BY_WAF''
           | None \<Rightarrow>
               (if resource_type r = CLOUDFRONT
                   \<or> (resource_type r = ALB \<and> is_public r)
                   \<or> (resource_type r = API_GATEWAY_REST \<and> is_public r)
                then ''NON_COMPLIANT''
                else ''COMPLIANT_NO_WAF_REQUIRED'')))"

text \<open>\<^verbatim>\<open>src/domain/entities/scan_result.py\<close>.\<close>

record ScanError =
  err_region :: string
  err_resource_type :: "string option"
  err_message :: string
  err_timestamp :: timestamp

record ScanResult =
  scan_account_id :: string
  regions_scanned :: "string list"
  scan_id :: string
  scan_started_at :: timestamp
  scan_completed_at :: "timestamp option"
  resources :: "Resource list"
  errors :: "ScanError list"

text \<open>
  \<^verbatim>\<open>add_resource\<close>, \<^verbatim>\<open>add_error\<close> and \<^verbatim>\<open>complete\<close> read the clock; the reading is
  the argument \<open>now\<close>. The source stores the error's timestamp as the ISO rendering of
  the reading; the model stores the reading.
\<close>

definition add_resource :: "timestamp \<Rightarrow> Resource \<Rightarrow> ScanResult \<Rightarrow> ScanResult" where
  "add_resource now r sr = sr\<lparr>resources := resources sr @ [r\<lparr>scanned_at := Some now\<rparr>]\<rparr>"

definition add_error ::
  "timestamp \<Rightarrow> string \<Rightarrow> string \<Rightarrow> string option \<Rightarrow> ScanResult \<Rightarrow> ScanResult" where
  "add_error now reg error_message rtype sr =
     sr\<lparr>errors := errors sr @
        [\<lparr>err_region = reg, err_resource_type = rtype,
          err_message = error_message, err_timestamp = now\<rparr>]\<rparr>"

definition complete :: "timestamp \<Rightarrow> ScanResult \<Rightarrow> ScanResult" where
  "complete now sr = sr\<lparr>scan_completed_at := Some now\<rparr>"

definition total_resources :: "ScanResult \<Rightarrow> nat" where
  "total_resources sr = length (resources sr)"

definition resources_with_waf :: "ScanResult \<Rightarrow> nat" where
  "resources_with_waf sr = length (filter has_waf (resources sr))"

definition resources_without_waf :: "ScanResult \<Rightarrow> nat" where
  "resources_without_waf sr = length (filter (\<lambda>r. \<not> has_waf r) (resources sr))"

definition compliant_resources :: "ScanResult \<Rightarrow> nat" where
  "compliant_resources sr = length (filter is_compliant (resources sr))"

definition non_compliant_resources :: "ScanResult \<Rightarrow> nat" where
  "non_compliant_resources sr = length (filter (\<lambda>r. \<not> is_compliant r) (resources sr))"

text \<open>
  The two rates are Python floats: \<^verbatim>\<open>(a / b) * 100\<close> is a correctly rounded true
  division of two integers followed by a rounded float multiplication. The model
  computes over the reals and takes the rounding \<open>rnd\<close> of the float format as a
  parameter, applied where Python rounds. The constants \<^verbatim>\<open>100.0\<close> and \<^verbatim>\<open>0.0\<close> are
  exact.
\<close>

definition get_compliance_rate :: "(real \<Rightarrow> real) \<Rightarrow> ScanResult \<Rightarrow> real" where
  "get_compliance_rate rnd sr =
     (if total_resources sr = 0 then 100
      else rnd (rnd (real (compliant_resources sr) / real (total_resources sr)) * 100))"

definition get_waf_coverage_rate :: "(real \<Rightarrow> real) \<Rightarrow> ScanResult \<Rightarrow> real" where
  "get_waf_coverage_rate rnd sr =
     (if total_resources sr = 0 then 0
      else rnd (rnd (real (resources_with_waf sr) / real (total_resources sr)) * 100))"

section \<open>Python strings and lists\<close>

text \<open>
  \<^verbatim>\<open>sub in s\<close> on strings: \<open>sub\<close> occurs in \<open>s\<close> as a contiguous block.
\<close>

fun str_contains :: "string \<Rightarrow> string \<Rightarrow> bool" where
  "str_contains sub [] = (sub = [])"
| "str_contains sub (c # cs) = (prefix sub (c # cs) \<or> str_contains sub cs)"

text \<open>
  \<^verbatim>\<open>s.split(sep)\<close> for a separator that is not empty: the string is scanned from the
  left, every occurrence of \<open>sep\<close> found ends a piece and the scan goes on behind it
  (occurrences do not overlap). \<open>cur\<close> holds the piece being read, reversed. The
  source only splits at the literals \<^verbatim>\<open>'/stages/'\<close>, \<^verbatim>\<open>'/apis/'\<close>, \<^verbatim>\<open>'/restapis/'\<close>,
  \<^verbatim>\<open>"/"\<close> and \<^verbatim>\<open>":"\<close>; Python's \<^verbatim>\<open>ValueError\<close> for an empty separator cannot
  happen there.
\<close>

fun split_from :: "string \<Rightarrow> string \<Rightarrow> string \<Rightarrow> string list" where
  "split_from sep cur [] = [rev cur]"
| "split_from sep cur (c # cs) =
     (if prefix sep (c # cs)
      then rev cur # split_from sep [] (drop (length sep - 1) cs)
      else split_from sep (c # cur) cs)"

definition split_py :: "string \<Rightarrow> string \<Rightarrow> string list" where
  "split_py s sep = split_from sep [] s"

text \<open>
  Exceptions of the Python code, each with its message (\<^verbatim>\<open>str(e)\<close>).
  \<open>OtherException\<close> stands for every class the source names nowhere.
\<close>

datatype py_exception =
  IndexError string | ValueError string | ClientError string | OtherException string

fun str_exc :: "py_exception \<Rightarrow> string" where
  "str_exc (IndexError m) = m"
| "str_exc (ValueError m) = m"
| "str_exc (ClientError m) = m"
| "str_exc (OtherException m) = m"

text \<open>\<^verbatim>\<open>xs[i]\<close> for an index that is not negative; out of range it raises.\<close>

definition py_index :: "'a list \<Rightarrow> nat \<Rightarrow> py_exception + 'a" where
  "py_index xs i =
     (if i < length xs then Inr (xs ! i) else Inl (IndexError ''list index out of range''))"

text \<open>\<^verbatim>\<open>xs[-1]\<close> and \<^verbatim>\<open>xs[-2]\<close>.\<close>

definition py_index_from_end :: "'a list \<Rightarrow> nat \<Rightarrow> py_exception + 'a" where
  "py_index_from_end xs k =
     (if 0 < k \<and> k \<le> length xs then Inr (xs ! (length xs - k))
      else Inl (IndexError ''list index out of range''))"

section \<open>Association Index Builder\<close>

text \<open>
  \<^verbatim>\<open>Boto3AWSClient.get_waf_associations_map\<close>. The collaborator
  \<^verbatim>\<open>_list_web_acls_with_resources(scope, region)\<close> issues the API calls; the model takes
  what it returns as the function \<open>lister\<close>. The dictionary is a map from identifiers
  to policies.
\<close>

type_synonym associations_map = "string \<rightharpoonup> WebACL"

type_synonym acl_lister = "string \<Rightarrow> string \<Rightarrow> (WebACL \<times> string list) list"

text \<open>The loops of the global (CloudFront) scope: a plain store per identifier.\<close>

definition store_plain :: "WebACL \<Rightarrow> string \<Rightarrow> associations_map \<Rightarrow> associations_map" where
  "store_plain acl resource_arn m = m(resource_arn \<mapsto> acl)"

text \<open>
  The body of the innermost loop of the regional scope. \<open>api_arn_of\<close> is
  \<^verbatim>\<open>resource_arn.split('/stages/')[0]\<close>; a split always has a first piece.
\<close>

definition is_rest_stage_arn :: "string \<Rightarrow> bool" where
  "is_rest_stage_arn resource_arn =
     (str_contains ''/restapis/'' resource_arn \<and> str_contains ''/stages/'' resource_arn)"

definition api_arn_of :: "string \<Rightarrow> string" where
  "api_arn_of resource_arn = hd (split_py resource_arn ''/stages/'')"

definition store_regional :: "WebACL \<Rightarrow> string \<Rightarrow> associations_map \<Rightarrow> associations_map" where
  "store_regional acl resource_arn m =
     (if is_rest_stage_arn resource_arn then
        (let api_arn = api_arn_of resource_arn;
             m1 = m(resource_arn \<mapsto> acl)
         in if api_arn \<notin> dom m1 then m1(api_arn \<mapsto> acl) else m1)
      else m(resource_arn \<mapsto> acl))"

definition store_acls ::
  "(WebACL \<Rightarrow> string \<Rightarrow> associations_map \<Rightarrow> associations_map) \<Rightarrow>
   (WebACL \<times> string list) list \<Rightarrow> associations_map \<Rightarrow> associations_map" where
  "store_acls store acls m =
     fold (\<lambda>(acl, resource_arns) m'. fold (store acl) resource_arns m') acls m"

definition get_waf_associations_map :: "acl_lister \<Rightarrow> string list \<Rightarrow> associations_map" where
  "get_waf_associations_map lister regions =
     (let associations_map0 =
            store_acls store_plain (lister ''CLOUDFRONT'' ''us-east-1'') Map.empty
      in fold (\<lambda>reg m. store_acls store_regional (lister ''REGIONAL'' reg) m)
           regions associations_map0)"





section \<open>Origin Index Builder\<close>

text \<open>
  \<^verbatim>\<open>Boto3AWSClient._parse_waf_arn\<close>. \<open>parse_waf_arn_try\<close> is the body of the
  \<^verbatim>\<open>try\<close> block together with the final \<^verbatim>\<open>return None\<close> that the block falls
  through to; \<open>parse_waf_arn\<close> adds the \<^verbatim>\<open>except (IndexError, ValueError)\<close> clause,
  which returns \<^verbatim>\<open>None\<close> as well. Any other exception would leave the function.
\<close>

definition parse_waf_arn_try :: "string \<Rightarrow> py_exception + WebACL option" where
  "parse_waf_arn_try waf_arn =
     (let parts = split_py waf_arn ''/'' in
      if length parts \<ge> 3 then
        (case py_index_from_end parts 2 of
           Inl e \<Rightarrow> Inl e
         | Inr web_acl_name \<Rightarrow>
        (case py_index_from_end parts 1 of
           Inl e \<Rightarrow> Inl e
         | Inr web_acl_uuid \<Rightarrow>
        (case py_index (split_py waf_arn '':'') 5 of
           Inl e \<Rightarrow> Inl e
         | Inr arn_prefix \<Rightarrow>
        (let scope = (if prefix ''global'' arn_prefix then ''CLOUDFRONT'' else ''REGIONAL'') in
         case py_index (split_py waf_arn '':'') 3 of
           Inl e \<Rightarrow> Inl e
         | Inr reg \<Rightarrow>
             Inr (Some \<lparr>acl_arn = waf_arn, acl_name = web_acl_name, acl_id = web_acl_uuid,
                        acl_scope = scope, acl_region = reg, acl_description = None,
                        acl_managed_by_firewall_manager = False\<rparr>)))))
      else Inr None)"

definition parse_waf_arn :: "string \<Rightarrow> py_exception + WebACL option" where
  "parse_waf_arn waf_arn =
     (case parse_waf_arn_try waf_arn of
        Inl (IndexError _) \<Rightarrow> Inr None
      | Inl (ValueError _) \<Rightarrow> Inr None
      | Inl e \<Rightarrow> Inl e
      | Inr r \<Rightarrow> Inr r)"

text \<open>
  \<^verbatim>\<open>Boto3AWSClient.get_cloudfront_origins_map\<close>. An entry of the index is the
  dictionary the source appends; its key \<^verbatim>\<open>'web_acl'\<close> is the field \<open>cf_web_acl\<close>.
\<close>

record FrontingEntry =
  cloudfront_arn :: string
  cloudfront_id :: string
  cloudfront_domain :: string
  cf_web_acl :: "WebACL option"

type_synonym origins_map = "string \<rightharpoonup> FrontingEntry list"

text \<open>
  What the CloudFront API returns. A page of the paginator carries its \<^verbatim>\<open>Items\<close> or
  has none. \<open>WebACLId\<close> is \<^verbatim>\<open>config.get('WebACLId', '')\<close> and \<open>Origins\<close> the
  \<^verbatim>\<open>DomainName\<close> of every item of \<^verbatim>\<open>config.get('Origins', {}).get('Items', [])\<close>.
  A call of \<^verbatim>\<open>get_distribution\<close> that raises \<^verbatim>\<open>ClientError\<close>, the class the source
  catches around it, returns \<open>None\<close> here. The page list holds the pages the paginator
  delivers before it ends or raises \<^verbatim>\<open>ClientError\<close>: in both cases the source returns
  the index built from them.
\<close>

record DistributionSummary =
  dist_Id :: string
  dist_DomainName :: string

record DistributionConfig =
  WebACLId :: string
  Origins :: "string list"

definition is_s3_origin :: "string \<Rightarrow> bool" where
  "is_s3_origin domain = (str_contains ''.s3.'' domain \<or> str_contains ''.s3-'' domain)"

definition make_entry :: "string \<Rightarrow> DistributionSummary \<Rightarrow> WebACL option \<Rightarrow> FrontingEntry" where
  "make_entry acct dist_summary w =
     \<lparr>cloudfront_arn = ''arn:aws:cloudfront::'' @ acct @ '':distribution/'' @ dist_Id dist_summary,
      cloudfront_id = dist_Id dist_summary,
      cloudfront_domain = dist_DomainName dist_summary,
      cf_web_acl = w\<rparr>"

text \<open>The body of the loop over the origins of one distribution.\<close>

definition add_origin :: "FrontingEntry \<Rightarrow> string \<Rightarrow> origins_map \<Rightarrow> origins_map" where
  "add_origin entry domain m =
     (if is_s3_origin domain then m
      else (let m1 = (if domain \<notin> dom m then m(domain \<mapsto> []) else m)
            in m1(domain \<mapsto> the (m1 domain) @ [entry])))"

text \<open>
  The body of the loop over the distributions of a page: the inner \<^verbatim>\<open>try\<close>. The
  policy is parsed before any origin is stored. A \<^verbatim>\<open>ClientError\<close> skips the
  distribution; another exception leaves the builder, which catches \<^verbatim>\<open>ClientError\<close>
  only.
\<close>

definition add_distribution ::
  "string \<Rightarrow> (string \<Rightarrow> DistributionConfig option) \<Rightarrow> DistributionSummary \<Rightarrow>
   origins_map \<Rightarrow> py_exception + origins_map" where
  "add_distribution acct get_distribution dist_summary m =
     (case get_distribution (dist_Id dist_summary) of
        None \<Rightarrow> Inr m
      | Some config \<Rightarrow>
          (case (if WebACLId config \<noteq> [] then parse_waf_arn (WebACLId config) else Inr None) of
             Inl (ClientError _) \<Rightarrow> Inr m
           | Inl e \<Rightarrow> Inl e
           | Inr w \<Rightarrow> Inr (fold (add_origin (make_entry acct dist_summary w)) (Origins config) m)))"

fun add_distributions ::
  "string \<Rightarrow> (string \<Rightarrow> DistributionConfig option) \<Rightarrow> DistributionSummary list \<Rightarrow>
   origins_map \<Rightarrow> py_exception + origins_map" where
  "add_distributions acct get_distribution [] m = Inr m"
| "add_distributions acct get_distribution (d # ds) m =
     (case add_distribution acct get_distribution d m of
        Inl e \<Rightarrow> Inl e
      | Inr m' \<Rightarrow> add_distributions acct get_distribution ds m')"

fun add_pages ::
  "string \<Rightarrow> (string \<Rightarrow> DistributionConfig option) \<Rightarrow> DistributionSummary list option list \<Rightarrow>
   origins_map \<Rightarrow> py_exception + origins_map" where
  "add_pages acct get_distribution [] m = Inr m"
| "add_pages acct get_distribution (None # pages) m = add_pages acct get_distribution pages m"
| "add_pages acct get_distribution (Some items # pages) m =
     (case add_distributions acct get_distribution items m of
        Inl e \<Rightarrow> Inl e
      | Inr m' \<Rightarrow> add_pages acct get_distribution pages m')"

definition get_cloudfront_origins_map ::
  "string \<Rightarrow> DistributionSummary list option list \<Rightarrow> (string \<Rightarrow> DistributionConfig option) \<Rightarrow>
   py_exception + origins_map" where
  "get_cloudfront_origins_map acct pages get_distribution =
     add_pages acct get_distribution pages Map.empty"

text \<open>
  For the statements about the index: the distributions of all pages in the order of
  the loops, the policy a configuration carries (no policy where the parser returns
  none), and the entries a hostname is due: one for every occurrence of the hostname
  among the origins of a distribution whose configuration could be read.
\<close>

definition all_distributions :: "DistributionSummary list option list \<Rightarrow> DistributionSummary list" where
  "all_distributions pages = concat (map (\<lambda>p. case p of None \<Rightarrow> [] | Some items \<Rightarrow> items) pages)"

definition policy_of_config :: "DistributionConfig \<Rightarrow> WebACL option" where
  "policy_of_config config =
     (if WebACLId config \<noteq> [] then
        (case parse_waf_arn (WebACLId config) of Inr w \<Rightarrow> w | Inl _ \<Rightarrow> None)
      else None)"

definition entries_of_distribution ::
  "string \<Rightarrow> (string \<Rightarrow> DistributionConfig option) \<Rightarrow> string \<Rightarrow> DistributionSummary \<Rightarrow>
   FrontingEntry list" where
  "entries_of_distribution acct get_distribution h d =
     (case get_distribution (dist_Id d) of
        None \<Rightarrow> []
      | Some config \<Rightarrow>
          map (\<lambda>_. make_entry acct d (policy_of_config config))
            (filter (\<lambda>domain. domain = h) (Origins config)))"

definition entries_due ::
  "string \<Rightarrow> (string \<Rightarrow> DistributionConfig option) \<Rightarrow> DistributionSummary list \<Rightarrow> string \<Rightarrow>
   FrontingEntry list" where
  "entries_due acct get_distribution dists h =
     concat (map (entries_of_distribution acct get_distribution h) dists)"

section \<open>Hostname Deriver\<close>

text \<open>
  \<^verbatim>\<open>Boto3AWSClient._get_alb_dns_name\<close> and \<^verbatim>\<open>match_resource_to_origin\<close>. The
  collaborator \<open>describe_load_balancers region arn\<close> returns the \<^verbatim>\<open>DNSName\<close> of every
  balancer of the response, or \<open>None\<close> when the call raises \<^verbatim>\<open>ClientError\<close>.
  \<^verbatim>\<open>split(...)[-1]\<close> is the last piece; a split always has one.
\<close>

type_synonym lb_lookup = "string \<Rightarrow> string \<Rightarrow> string list option"

definition get_alb_dns_name :: "lb_lookup \<Rightarrow> string \<Rightarrow> string \<Rightarrow> string option" where
  "get_alb_dns_name describe_load_balancers alb_arn reg =
     (case describe_load_balancers reg alb_arn of
        None \<Rightarrow> None
      | Some [] \<Rightarrow> None
      | Some (dns_name # _) \<Rightarrow> Some dns_name)"

definition match_resource_to_origin :: "lb_lookup \<Rightarrow> Resource \<Rightarrow> string option" where
  "match_resource_to_origin describe_load_balancers r =
     (if resource_type r = API_GATEWAY_HTTP then
        (let api_id = last (split_py (arn r) ''/apis/'')
         in Some (api_id @ ''.execute-api.'' @ region r @ ''.amazonaws.com''))
      else if resource_type r = API_GATEWAY_REST then
        (let api_id = last (split_py (arn r) ''/restapis/'')
         in Some (api_id @ ''.execute-api.'' @ region r @ ''.amazonaws.com''))
      else if resource_type r = ALB then
        get_alb_dns_name describe_load_balancers (arn r) (region r)
      else None)"

section \<open>Fronted-By Propagator\<close>

text \<open>
  \<^verbatim>\<open>ScannerService._enrich_fronted_by_relationships\<close>. The source updates every
  resource of the list in place; the model returns the updated list. \<open>attach_first_waf\<close>
  is the loop over the entries with its \<^verbatim>\<open>break\<close>. A hostname that is \<^verbatim>\<open>None\<close> or
  the empty string is false for \<^verbatim>\<open>if not origin_domain\<close>.
\<close>

fun attach_first_waf :: "FrontingEntry list \<Rightarrow> Resource \<Rightarrow> Resource" where
  "attach_first_waf [] r = r"
| "attach_first_waf (cf_dist # rest) r =
     (case cf_web_acl cf_dist of
        Some w \<Rightarrow>
          r\<lparr>fronted_by_resource_arn := Some (cloudfront_arn cf_dist),
            fronted_by_waf := Some w,
            fronted_by_notes :=
              Some (''Fronted by CloudFront Distribution '' @ cloudfront_arn cf_dist
                    @ '' with WAF '' @ acl_name w)\<rparr>
      | None \<Rightarrow> attach_first_waf rest r)"

definition enrich_resource :: "lb_lookup \<Rightarrow> origins_map \<Rightarrow> Resource \<Rightarrow> Resource" where
  "enrich_resource describe_load_balancers origins r =
     (if resource_type r \<notin> {API_GATEWAY_HTTP, API_GATEWAY_REST, ALB} then r
      else if truthy_acl (web_acl r) then r
      else
        (case match_resource_to_origin describe_load_balancers r of
           None \<Rightarrow> r
         | Some origin_domain \<Rightarrow>
             if origin_domain = [] then r
             else
               (let cloudfront_dists = (case origins origin_domain of None \<Rightarrow> [] | Some ds \<Rightarrow> ds)
                in if cloudfront_dists = [] then r
                   else attach_first_waf cloudfront_dists r)))"

definition enrich_fronted_by_relationships ::
  "lb_lookup \<Rightarrow> origins_map \<Rightarrow> ScanResult \<Rightarrow> ScanResult" where
  "enrich_fronted_by_relationships describe_load_balancers origins sr =
     sr\<lparr>resources := map (enrich_resource describe_load_balancers origins) (resources sr)\<rparr>"

section \<open>Scanner\<close>

text \<open>
  \<^verbatim>\<open>src/application/scanner_service.py\<close>. The collaborators of the scan are the
  fields of \<open>aws_client\<close>: each is what the call returns. \<^verbatim>\<open>list_resources\<close> may
  raise any exception (the source catches \<^verbatim>\<open>Exception\<close> around it). Log calls change
  nothing the scan returns and are left out.

  The clock is the function \<open>utcnow\<close>: its \<open>n\<close>-th reading is \<open>utcnow n\<close>. The scan
  state pairs the ScanResult with the number of readings taken so far.
\<close>

record aws_client =
  caller_account :: string
  list_web_acls_with_resources :: acl_lister
  list_resources :: "ResourceType \<Rightarrow> string \<Rightarrow> py_exception + Resource list"
  distribution_pages :: "DistributionSummary list option list"
  get_distribution :: "string \<Rightarrow> DistributionConfig option"
  describe_load_balancers :: lb_lookup

type_synonym scan_state = "ScanResult \<times> nat"

definition DEFAULT_REGIONS :: "string list" where
  "DEFAULT_REGIONS = [''us-east-1'']"

definition DEFAULT_RESOURCE_TYPES :: "ResourceType list" where
  "DEFAULT_RESOURCE_TYPES =
     [ALB, CLOUDFRONT, API_GATEWAY_REST, API_GATEWAY_HTTP, APPSYNC, COGNITO, APP_RUNNER,
      VERIFIED_ACCESS]"

text \<open>The loop over the resources one enumeration call returned.\<close>

fun add_listed_resources ::
  "(nat \<Rightarrow> timestamp) \<Rightarrow> associations_map \<Rightarrow> Resource list \<Rightarrow> scan_state \<Rightarrow> scan_state" where
  "add_listed_resources utcnow waf_map [] st = st"
| "add_listed_resources utcnow waf_map (r # rs) (sr, n) =
     (let r' = (if resource_type r \<noteq> CLOUDFRONT \<and> arn r \<in> dom waf_map
                then r\<lparr>web_acl := waf_map (arn r)\<rparr> else r)
      in add_listed_resources utcnow waf_map rs (add_resource (utcnow n) r' sr, Suc n))"

fun scan_resource_type ::
  "aws_client \<Rightarrow> (nat \<Rightarrow> timestamp) \<Rightarrow> associations_map \<Rightarrow> string \<Rightarrow> ResourceType \<Rightarrow>
   scan_state \<Rightarrow> scan_state" where
  "scan_resource_type client utcnow waf_map reg rt (sr, n) =
     (if rt = CLOUDFRONT \<and> reg \<noteq> ''us-east-1'' then (sr, n)
      else
        (case list_resources client rt reg of
           Inr rs \<Rightarrow> add_listed_resources utcnow waf_map rs (sr, n)
         | Inl e \<Rightarrow> (add_error (utcnow n) reg (str_exc e) (Some (rt_value rt)) sr, Suc n)))"

definition scan_region ::
  "aws_client \<Rightarrow> (nat \<Rightarrow> timestamp) \<Rightarrow> associations_map \<Rightarrow> ResourceType list \<Rightarrow> string \<Rightarrow>
   scan_state \<Rightarrow> scan_state" where
  "scan_region client utcnow waf_map resource_types reg st =
     fold (scan_resource_type client utcnow waf_map reg) resource_types st"

definition scan_regions ::
  "aws_client \<Rightarrow> (nat \<Rightarrow> timestamp) \<Rightarrow> associations_map \<Rightarrow> ResourceType list \<Rightarrow> string list \<Rightarrow>
   scan_state \<Rightarrow> scan_state" where
  "scan_regions client utcnow waf_map resource_types regions st =
     fold (scan_region client utcnow waf_map resource_types) regions st"

text \<open>
  \<^verbatim>\<open>ScannerService.scan\<close>. \<^verbatim>\<open>regions or DEFAULT_REGIONS\<close> takes the default for
  \<^verbatim>\<open>None\<close> and for the empty list. \<open>new_scan_id\<close> is the fresh UUID; the first clock
  reading is the start of the scan. The Origin Index Builder is the one call that can
  pass an exception on.
\<close>

definition or_default :: "'a list option \<Rightarrow> 'a list \<Rightarrow> 'a list" where
  "or_default xs d = (case xs of None \<Rightarrow> d | Some [] \<Rightarrow> d | Some ys \<Rightarrow> ys)"

definition scan ::
  "aws_client \<Rightarrow> (nat \<Rightarrow> timestamp) \<Rightarrow> string \<Rightarrow> string list option \<Rightarrow>
   ResourceType list option \<Rightarrow> bool \<Rightarrow> py_exception + ScanResult" where
  "scan client utcnow new_scan_id regions_arg resource_types_arg include_waf_lookup =
     (let regions = or_default regions_arg DEFAULT_REGIONS;
          resource_types = or_default resource_types_arg DEFAULT_RESOURCE_TYPES;
          scan_result0 =
            \<lparr>scan_account_id = caller_account client, regions_scanned = regions,
             scan_id = new_scan_id, scan_started_at = utcnow 0, scan_completed_at = None,
             resources = [], errors = []\<rparr>;
          waf_map =
            (if include_waf_lookup
             then get_waf_associations_map (list_web_acls_with_resources client) regions
             else Map.empty);
          (sr1, n1) = scan_regions client utcnow waf_map resource_types regions (scan_result0, 1)
      in if include_waf_lookup then
           (case get_cloudfront_origins_map (caller_account client) (distribution_pages client)
                   (get_distribution client) of
              Inl e \<Rightarrow> Inl e
            | Inr origins \<Rightarrow>
                Inr (complete (utcnow n1)
                       (enrich_fronted_by_relationships (describe_load_balancers client) origins sr1)))
         else Inr (complete (utcnow n1) sr1))"

section \<open>Auxiliary definitions\<close>

text \<open>
  For the proofs about the Origin Index Builder: the entry list a hostname has in an
  index (empty when the key is absent), the invariant of the index (no key is a
  storage-service hostname and no key has an empty list), and what passing one
  distribution does to the index when nothing is raised.
\<close>

definition entries_at :: "origins_map \<Rightarrow> string \<Rightarrow> FrontingEntry list" where
  "entries_at m h = (case m h of None \<Rightarrow> [] | Some es \<Rightarrow> es)"

definition index_ok :: "origins_map \<Rightarrow> bool" where
  "index_ok m = (\<forall>h es. m h = Some es \<longrightarrow> es \<noteq> [] \<and> \<not> is_s3_origin h)"

definition distribution_step ::
  "string \<Rightarrow> (string \<Rightarrow> DistributionConfig option) \<Rightarrow> DistributionSummary \<Rightarrow>
   origins_map \<Rightarrow> origins_map" where
  "distribution_step acct gd d m =
     (case gd (dist_Id d) of
        None \<Rightarrow> m
      | Some config \<Rightarrow>
          fold (add_origin (make_entry acct d (policy_of_config config))) (Origins config) m)"

section \<open>Example values\<close>

definition policy1 :: WebACL where
  "policy1 = \<lparr>acl_arn = ''arn:aws:wafv2:us-east-1:1:regional/webacl/p1/id1'', acl_name = ''p1'',
     acl_id = ''id1'', acl_scope = ''REGIONAL'', acl_region = ''us-east-1'',
     acl_description = None, acl_managed_by_firewall_manager = False\<rparr>"

definition policy2 :: WebACL where
  "policy2 = \<lparr>acl_arn = ''arn:aws:wafv2:us-east-1:1:regional/webacl/p2/id2'', acl_name = ''p2'',
     acl_id = ''id2'', acl_scope = ''REGIONAL'', acl_region = ''us-east-1'',
     acl_description = None, acl_managed_by_firewall_manager = False\<rparr>"

definition example_resource :: "ResourceType \<Rightarrow> string \<Rightarrow> Resource" where
  "example_resource rt a =
     \<lparr>arn = a, resource_type = rt, region = ''us-east-1'', account_id = ''1'', name = None,
      web_acl = None, fronted_by_resource_arn = None, fronted_by_waf = None,
      fronted_by_notes = None, is_public = True, tags = [], scanned_at = None\<rparr>"

definition example_scan_result :: "Resource list \<Rightarrow> ScanResult" where
  "example_scan_result rs =
     \<lparr>scan_account_id = ''1'', regions_scanned = [''us-east-1''], scan_id = ''s'',
      scan_started_at = 0, scan_completed_at = None, resources = rs, errors = []\<rparr>"




definition lister_two_stages :: acl_lister where
  "lister_two_stages scope reg =
     (if scope = ''REGIONAL'' \<and> reg = ''us-east-1''
      then [(policy1, [''/restapis/ABC/stages/prod'']), (policy2, [''/restapis/ABC/stages/dev''])]
      else [])"







text \<open>Two distributions in front of one hostname; the second carries a policy identifier that is no ARN.\<close>

definition dist1 :: DistributionSummary where
  "dist1 = \<lparr>dist_Id = ''E1'', dist_DomainName = ''d1.cloudfront.net''\<rparr>"

definition dist2 :: DistributionSummary where
  "dist2 = \<lparr>dist_Id = ''E2'', dist_DomainName = ''d2.cloudfront.net''\<rparr>"

definition example_configs :: "string \<Rightarrow> DistributionConfig option" where
  "example_configs i =
     (if i = ''E1'' then
        Some \<lparr>WebACLId = ''arn:aws:wafv2:us-east-1:1:global/webacl/n/i'',
              Origins = [''api.example.com'', ''b.s3.amazonaws.com'']\<rparr>
      else if i = ''E2'' then
        Some \<lparr>WebACLId = ''not-an-arn'', Origins = [''api.example.com'']\<rparr>
      else None)"

definition global_policy :: WebACL where
  "global_policy = \<lparr>acl_arn = ''arn:aws:wafv2:us-east-1:1:global/webacl/n/i'', acl_name = ''n'',
     acl_id = ''i'', acl_scope = ''CLOUDFRONT'', acl_region = ''us-east-1'',
     acl_description = None, acl_managed_by_firewall_manager = False\<rparr>"

text \<open>A client, a load-balancer lookup, an origin index and a scan for the examples.\<close>


definition example_listing :: "ResourceType \<Rightarrow> string \<Rightarrow> py_exception + Resource list" where
  "example_listing rt reg =
     (if rt = ALB then Inl (OtherException ''throttled'')
      else if rt = API_GATEWAY_REST
      then Inr [example_resource API_GATEWAY_REST ''arn:aws:apigateway:us-east-1::/restapis/ABC'']
      else Inr [])"

definition example_client :: aws_client where
  "example_client =
     \<lparr>caller_account = ''1'', list_web_acls_with_resources = lister_two_stages,
      list_resources = example_listing, distribution_pages = [],
      get_distribution = (\<lambda>_. None), describe_load_balancers = (\<lambda>_ _. None)\<rparr>"

definition example_lb_lookup :: lb_lookup where
  "example_lb_lookup reg a =
     (if a = ''lb1'' then Some [''lb1.elb.amazonaws.com''] else if a = ''lb2'' then Some [] else None)"

definition example_origins :: origins_map where
  "example_origins =
     [''lb1.elb.amazonaws.com'' \<mapsto>
        [make_entry ''1'' dist2 None, make_entry ''1'' dist1 (Some global_policy)],
      ''o5yl.execute-api.us-east-1.amazonaws.com'' \<mapsto> [make_entry ''1'' dist2 None]]"

definition fronted_scan :: ScanResult where
  "fronted_scan =
     example_scan_result
       [example_resource ALB ''lb1'', example_resource COGNITO ''pool'',
        example_resource API_GATEWAY_HTTP ''arn:aws:apigateway:us-east-1::/apis/o5yl'']"

section \<open>Properties of the Compliance Evaluator\<close>

text \<open>
  C1. For every resource the status computed by \<^verbatim>\<open>get_compliance_status\<close> is the one
  the reference definition gives: COMPLIANT with a direct policy, whatever the
  fronted-by fields hold; otherwise COMPLIANT_FRONTED_BY_WAF with a fronted-by policy;
  otherwise NON_COMPLIANT for a CDN distribution, a public load balancer or a public
  REST gateway; otherwise COMPLIANT_NO_WAF_REQUIRED.
\<close>

theorem compliance_status_refines_spec:
  "get_compliance_status r = spec_compliance_status r"
  by (cases "web_acl r"; cases "fronted_by_waf r")
     (simp_all add: get_compliance_status_def spec_compliance_status_def is_compliant_def
        has_waf_def truthy_acl_def)

section \<open>Properties of the aggregate rates\<close>

text \<open>
  C5. For every ScanResult the compliance rate lies between 0 and 100, and it is 100
  when there is no resource (no division happens). The rounding of the float format is
  any monotone function that leaves 0, 1 and 100 as they are, as rounding to nearest
  does.
\<close>

theorem compliance_rate_bounds:
  assumes "mono rnd" and "rnd 0 = 0" and "rnd 1 = 1" and "rnd 100 = 100"
  shows "0 \<le> get_compliance_rate rnd sr \<and> get_compliance_rate rnd sr \<le> 100
         \<and> (total_resources sr = 0 \<longrightarrow> get_compliance_rate rnd sr = 100)"
proof (cases "total_resources sr = 0")
  case True
  then show ?thesis by (simp add: get_compliance_rate_def)
next
  case False
  define q where "q = real (compliant_resources sr) / real (total_resources sr)"
  have le: "compliant_resources sr \<le> total_resources sr"
    by (simp add: compliant_resources_def total_resources_def)
  have q0: "0 \<le> q" by (simp add: q_def)
  have q1: "q \<le> 1" using le False by (simp add: q_def)
  have r0: "0 \<le> rnd q" using monoD [OF assms(1) q0] assms(2) by simp
  have r1: "rnd q \<le> 1" using monoD [OF assms(1) q1] assms(3) by simp
  have p0: "0 \<le> rnd q * 100" using r0 by simp
  have p1: "rnd q * 100 \<le> 100" using r1 by simp
  have "0 \<le> rnd (rnd q * 100)" using monoD [OF assms(1) p0] assms(2) by simp
  moreover have "rnd (rnd q * 100) \<le> 100" using monoD [OF assms(1) p1] assms(4) by simp
  ultimately show ?thesis using False by (simp add: get_compliance_rate_def q_def)
qed

theorem compliance_rate_bounds_witness:
  "mono (id :: real \<Rightarrow> real) \<and> id (0::real) = 0 \<and> id (1::real) = 1 \<and> id (100::real) = 100
   \<and> 0 \<le> get_compliance_rate id (example_scan_result []) 
   \<and> get_compliance_rate id (example_scan_result []) \<le> 100
   \<and> total_resources (example_scan_result []) = 0
   \<and> get_compliance_rate id (example_scan_result []) = 100
   \<and> get_compliance_rate id
        (example_scan_result [example_resource CLOUDFRONT ''d'', example_resource COGNITO ''c''])
      = 50"
proof -
  have m: "mono (id :: real \<Rightarrow> real)" by (simp add: mono_def)
  have "total_resources (example_scan_result []) = 0"
    by (simp add: total_resources_def example_scan_result_def)
  moreover have "get_compliance_rate id
        (example_scan_result [example_resource CLOUDFRONT ''d'', example_resource COGNITO ''c''])
      = 50"
    by (simp add: get_compliance_rate_def total_resources_def compliant_resources_def
        example_scan_result_def example_resource_def is_compliant_def has_waf_def truthy_acl_def)
  ultimately show ?thesis
    using m compliance_rate_bounds [OF m, of "example_scan_result []"] by simp
qed

text \<open>
  C10. With an empty resource list the WAF coverage rate is 0 while the compliance rate
  is 100.
\<close>

theorem empty_scan_rates_asymmetric:
  "resources sr = [] \<Longrightarrow>
     get_waf_coverage_rate rnd sr = 0 \<and> get_compliance_rate rnd sr = 100"
  by (simp add: get_waf_coverage_rate_def get_compliance_rate_def total_resources_def)

theorem empty_scan_rates_asymmetric_witness:
  "resources (example_scan_result []) = []
   \<and> get_waf_coverage_rate id (example_scan_result []) = 0
   \<and> get_compliance_rate id (example_scan_result []) = 100"
proof -
  have e: "resources (example_scan_result []) = []"
    by (simp add: example_scan_result_def)
  show ?thesis using e empty_scan_rates_asymmetric [OF e, of id] by simp
qed

section \<open>Properties of the Association Index Builder\<close>

subsection \<open>The first piece of a split and the stores of one pair\<close>
















subsection \<open>The examples of the specification\<close>














section \<open>Properties of the Origin Index Builder\<close>

subsection \<open>The parser of policy identifiers\<close>

lemma py_index_from_end_in_range:
  "0 < k \<Longrightarrow> k \<le> length xs \<Longrightarrow> py_index_from_end xs k = Inr (xs ! (length xs - k))"
  by (simp add: py_index_from_end_def)

lemma parse_waf_arn_try_cases:
  "parse_waf_arn_try s =
     (if length (split_py s ''/'') < 3 then Inr None
      else if length (split_py s '':'') < 6 then Inl (IndexError ''list index out of range'')
      else Inr (Some \<lparr>acl_arn = s,
                      acl_name = split_py s ''/'' ! (length (split_py s ''/'') - 2),
                      acl_id = split_py s ''/'' ! (length (split_py s ''/'') - 1),
                      acl_scope = (if prefix ''global'' (split_py s '':'' ! 5)
                                   then ''CLOUDFRONT'' else ''REGIONAL''),
                      acl_region = split_py s '':'' ! 3,
                      acl_description = None,
                      acl_managed_by_firewall_manager = False\<rparr>))"
  by (simp add: parse_waf_arn_try_def Let_def py_index_from_end_in_range py_index_def)

lemma parse_waf_arn_cases:
  "parse_waf_arn s =
     (if length (split_py s ''/'') < 3 \<or> length (split_py s '':'') < 6 then Inr None
      else Inr (Some \<lparr>acl_arn = s,
                      acl_name = split_py s ''/'' ! (length (split_py s ''/'') - 2),
                      acl_id = split_py s ''/'' ! (length (split_py s ''/'') - 1),
                      acl_scope = (if prefix ''global'' (split_py s '':'' ! 5)
                                   then ''CLOUDFRONT'' else ''REGIONAL''),
                      acl_region = split_py s '':'' ! 3,
                      acl_description = None,
                      acl_managed_by_firewall_manager = False\<rparr>))"
  by (simp add: parse_waf_arn_def parse_waf_arn_try_cases)

lemma parse_waf_arn_returns: "\<exists>w. parse_waf_arn s = Inr w"
  by (simp add: parse_waf_arn_cases)

subsection \<open>The builder as a fold that raises nothing\<close>

lemma parsed_policy:
  "(if WebACLId config \<noteq> [] then parse_waf_arn (WebACLId config) else Inr None)
     = Inr (policy_of_config config)"
  using parse_waf_arn_returns [of "WebACLId config"] by (auto simp: policy_of_config_def)

lemma add_distribution_step:
  "add_distribution acct gd d m = Inr (distribution_step acct gd d m)"
  by (simp add: add_distribution_def distribution_step_def parsed_policy split: option.splits)

lemma add_distributions_fold:
  "add_distributions acct gd ds m = Inr (fold (distribution_step acct gd) ds m)"
  by (induction ds arbitrary: m) (simp_all add: add_distribution_step)

lemma add_pages_fold:
  "add_pages acct gd pages m = Inr (fold (distribution_step acct gd) (all_distributions pages) m)"
proof (induction pages arbitrary: m)
  case Nil
  then show ?case by (simp add: all_distributions_def)
next
  case (Cons p pages)
  show ?case
  proof (cases p)
    case None
    then show ?thesis using Cons.IH by (simp add: all_distributions_def)
  next
    case (Some items)
    then show ?thesis using Cons.IH by (simp add: all_distributions_def add_distributions_fold)
  qed
qed

lemma add_origin_ok: "index_ok m \<Longrightarrow> index_ok (add_origin e d m)"
  by (auto simp: index_ok_def add_origin_def Let_def split: if_splits)

lemma add_origin_entries:
  "entries_at (add_origin e d m) h
     = entries_at m h @ (if d = h \<and> \<not> is_s3_origin d then [e] else [])"
  by (auto simp: entries_at_def add_origin_def Let_def domIff split: option.splits)

lemma fold_add_origin_ok: "index_ok m \<Longrightarrow> index_ok (fold (add_origin e) ds m)"
  by (induction ds arbitrary: m) (simp_all add: add_origin_ok)

lemma fold_add_origin_entries:
  "entries_at (fold (add_origin e) ds m) h
     = entries_at m h
       @ (if is_s3_origin h then [] else map (\<lambda>_. e) (filter (\<lambda>d. d = h) ds))"
  by (induction ds arbitrary: m) (auto simp: add_origin_entries)

lemma distribution_step_ok: "index_ok m \<Longrightarrow> index_ok (distribution_step acct gd d m)"
  by (simp add: distribution_step_def fold_add_origin_ok split: option.splits)

lemma distribution_step_entries:
  "entries_at (distribution_step acct gd d m) h
     = entries_at m h @ (if is_s3_origin h then [] else entries_of_distribution acct gd h d)"
  by (simp add: distribution_step_def entries_of_distribution_def fold_add_origin_entries
      split: option.splits)

lemma fold_distribution_step_ok:
  "index_ok m \<Longrightarrow> index_ok (fold (distribution_step acct gd) ds m)"
  by (induction ds arbitrary: m) (simp_all add: distribution_step_ok)

lemma fold_distribution_step_entries:
  "entries_at (fold (distribution_step acct gd) ds m) h
     = entries_at m h @ (if is_s3_origin h then [] else entries_due acct gd ds h)"
  by (induction ds arbitrary: m) (simp_all add: distribution_step_entries entries_due_def)

lemma index_ok_empty: "index_ok Map.empty"
  by (simp add: index_ok_def)

lemma index_ok_lookup:
  "index_ok m \<Longrightarrow> m h = (if entries_at m h = [] then None else Some (entries_at m h))"
  by (auto simp: index_ok_def entries_at_def split: option.splits)

lemma origins_map_built:
  "get_cloudfront_origins_map acct pages gd
     = Inr (fold (distribution_step acct gd) (all_distributions pages) Map.empty)"
  by (simp add: get_cloudfront_origins_map_def add_pages_fold)

lemma origins_map_lookup:
  "fold (distribution_step acct gd) dists Map.empty h
     = (if is_s3_origin h \<or> entries_due acct gd dists h = [] then None
        else Some (entries_due acct gd dists h))"
proof -
  define M where "M = fold (distribution_step acct gd) dists Map.empty"
  have ok: "index_ok M"
    unfolding M_def by (rule fold_distribution_step_ok [OF index_ok_empty])
  have es: "entries_at M h = (if is_s3_origin h then [] else entries_due acct gd dists h)"
    unfolding M_def by (simp add: fold_distribution_step_entries) (simp add: entries_at_def)
  show ?thesis
    using index_ok_lookup [OF ok, of h] by (simp add: es M_def [symmetric])
qed

text \<open>
  C6. The Origin Index Builder returns an index for every list of distributions. No
  key of the index is a storage-service hostname (one that contains \<^verbatim>\<open>.s3.\<close> or
  \<^verbatim>\<open>.s3-\<close>). Every other hostname has exactly the entries it is due, in the order
  of the distributions: one per occurrence among the origins of a distribution, also
  when other distributions gave it entries before.
\<close>

theorem origin_index_excludes_storage:
  "\<exists>M. get_cloudfront_origins_map acct pages gd = Inr M
       \<and> (\<forall>h \<in> dom M. \<not> is_s3_origin h)
       \<and> (\<forall>h. \<not> is_s3_origin h \<longrightarrow>
             M h = (if entries_due acct gd (all_distributions pages) h = [] then None
                    else Some (entries_due acct gd (all_distributions pages) h)))"
  by (auto simp: origins_map_built origins_map_lookup domIff split: if_splits)


lemma parse_example_arn:
  "parse_waf_arn ''arn:aws:wafv2:us-east-1:1:global/webacl/n/i'' = Inr (Some global_policy)"
  by (simp add: parse_waf_arn_cases split_py_def global_policy_def)

lemma parse_not_an_arn: "parse_waf_arn ''not-an-arn'' = Inr None"
  by (simp add: parse_waf_arn_cases split_py_def)

lemma example_entries_due:
  "entries_due ''1'' example_configs (all_distributions [Some [dist1, dist2]]) ''api.example.com''
     = [make_entry ''1'' dist1 (Some global_policy), make_entry ''1'' dist2 None]"
  by (simp add: entries_due_def all_distributions_def entries_of_distribution_def
      example_configs_def dist1_def dist2_def policy_of_config_def parse_example_arn
      parse_not_an_arn)

lemma example_hosts:
  "is_s3_origin ''b.s3.amazonaws.com''" "\<not> is_s3_origin ''api.example.com''"
  by (simp_all add: is_s3_origin_def)

theorem origin_index_excludes_storage_witness:
  "\<exists>M. get_cloudfront_origins_map ''1'' [Some [dist1, dist2]] example_configs = Inr M
       \<and> ''b.s3.amazonaws.com'' \<notin> dom M
       \<and> \<not> is_s3_origin ''api.example.com''
       \<and> M ''api.example.com''
           = Some [make_entry ''1'' dist1 (Some global_policy), make_entry ''1'' dist2 None]"
proof -
  from origin_index_excludes_storage [of "''1''" "[Some [dist1, dist2]]" example_configs]
  obtain M where built: "get_cloudfront_origins_map ''1'' [Some [dist1, dist2]] example_configs = Inr M"
    and keys: "\<forall>h \<in> dom M. \<not> is_s3_origin h"
    and look: "\<forall>h. \<not> is_s3_origin h \<longrightarrow>
             M h = (if entries_due ''1'' example_configs (all_distributions [Some [dist1, dist2]]) h = []
                    then None
                    else Some (entries_due ''1'' example_configs (all_distributions [Some [dist1, dist2]]) h))"
    by blast
  from keys example_hosts(1) have a: "''b.s3.amazonaws.com'' \<notin> dom M" by blast
  from look example_hosts(2) have b: "M ''api.example.com''
           = Some [make_entry ''1'' dist1 (Some global_policy), make_entry ''1'' dist2 None]"
    by (simp add: example_entries_due)
  from built a b example_hosts(2) show ?thesis by blast
qed


lemma entry_in_entries_due:
  "d \<in> set dists \<Longrightarrow> gd (dist_Id d) = Some config \<Longrightarrow> h \<in> set (Origins config) \<Longrightarrow>
     make_entry acct d (policy_of_config config) \<in> set (entries_due acct gd dists h)"
  by (auto simp: entries_due_def entries_of_distribution_def intro!: bexI [of _ d])

lemma scan_resource_type_distributions:
  "scan_resource_type (client\<lparr>distribution_pages := pages, get_distribution := gd\<rparr>) utcnow wm reg rt st
     = scan_resource_type client utcnow wm reg rt st"
  by (cases st) simp

lemma scan_region_distributions:
  "scan_region (client\<lparr>distribution_pages := pages, get_distribution := gd\<rparr>) utcnow wm rts reg st
     = scan_region client utcnow wm rts reg st"
proof -
  have "scan_resource_type (client\<lparr>distribution_pages := pages, get_distribution := gd\<rparr>) utcnow wm reg
          = scan_resource_type client utcnow wm reg"
    by (intro ext) (rule scan_resource_type_distributions)
  then show ?thesis by (simp add: scan_region_def)
qed

lemma scan_regions_distributions:
  "scan_regions (client\<lparr>distribution_pages := pages, get_distribution := gd\<rparr>) utcnow wm rts regs st
     = scan_regions client utcnow wm rts regs st"
proof -
  have "scan_region (client\<lparr>distribution_pages := pages, get_distribution := gd\<rparr>) utcnow wm rts
          = scan_region client utcnow wm rts"
    by (intro ext) (rule scan_region_distributions)
  then show ?thesis by (simp add: scan_regions_def)
qed

lemma errors_complete: "errors (complete now sr) = errors sr"
  by (simp add: complete_def)

lemma errors_enrich: "errors (enrich_fronted_by_relationships dlb origins sr) = errors sr"
  by (simp add: enrich_fronted_by_relationships_def)

lemma scan_returns:
  "\<exists>sr. scan client utcnow sid regions_arg types_arg lookup = Inr sr
        \<and> errors sr
            = errors (fst (scan_regions client utcnow
                (if lookup
                 then get_waf_associations_map (list_web_acls_with_resources client)
                        (or_default regions_arg DEFAULT_REGIONS)
                 else Map.empty)
                (or_default types_arg DEFAULT_RESOURCE_TYPES)
                (or_default regions_arg DEFAULT_REGIONS)
                (\<lparr>scan_account_id = caller_account client,
                  regions_scanned = or_default regions_arg DEFAULT_REGIONS,
                  scan_id = sid, scan_started_at = utcnow 0, scan_completed_at = None,
                  resources = [], errors = []\<rparr>, 1)))"
  by (auto simp: scan_def Let_def origins_map_built errors_complete errors_enrich
      split: prod.splits)

text \<open>
  C7. The parser of policy identifiers returns for every string: a policy, whose scope
  is CLOUDFRONT exactly when the sixth colon-separated segment starts with \<^verbatim>\<open>global\<close>
  and REGIONAL otherwise, or no policy; it returns no policy exactly for the strings
  with fewer than three slash-separated or fewer than six colon-separated parts. A
  distribution whose identifier parses to no policy still has an entry, without
  policy, under each of its origin hostnames that is no storage-service hostname. The
  scan returns a result, and its error list is the same whatever the distributions
  hold.
\<close>

theorem malformed_policy_id_is_no_policy:
  "(\<exists>r. parse_waf_arn s = Inr r)
   \<and> (\<forall>w. parse_waf_arn s = Inr (Some w) \<longrightarrow>
          5 < length (split_py s '':'')
          \<and> acl_scope w = (if prefix ''global'' (split_py s '':'' ! 5)
                            then ''CLOUDFRONT'' else ''REGIONAL''))
   \<and> (parse_waf_arn s = Inr None
        \<longleftrightarrow> length (split_py s ''/'') < 3 \<or> length (split_py s '':'') < 6)
   \<and> (d \<in> set (all_distributions pages) \<and> gd (dist_Id d) = Some config
        \<and> WebACLId config = s \<and> parse_waf_arn s = Inr None
        \<and> h \<in> set (Origins config) \<and> \<not> is_s3_origin h \<longrightarrow>
        (\<exists>M es. get_cloudfront_origins_map acct pages gd = Inr M
                 \<and> M h = Some es \<and> make_entry acct d None \<in> set es))
   \<and> (\<exists>sr sr'. scan client utcnow sid regions_arg types_arg lookup = Inr sr
         \<and> scan (client\<lparr>distribution_pages := pages, get_distribution := gd\<rparr>)
              utcnow sid regions_arg types_arg lookup = Inr sr'
         \<and> errors sr' = errors sr)"
proof -
  have a: "\<exists>r. parse_waf_arn s = Inr r" by (rule parse_waf_arn_returns)
  have b: "\<forall>w. parse_waf_arn s = Inr (Some w) \<longrightarrow>
          5 < length (split_py s '':'')
          \<and> acl_scope w = (if prefix ''global'' (split_py s '':'' ! 5)
                            then ''CLOUDFRONT'' else ''REGIONAL'')"
    by (auto simp: parse_waf_arn_cases split: if_splits)
  have c: "parse_waf_arn s = Inr None
        \<longleftrightarrow> length (split_py s ''/'') < 3 \<or> length (split_py s '':'') < 6"
    by (simp add: parse_waf_arn_cases)
  have d: "\<exists>M es. get_cloudfront_origins_map acct pages gd = Inr M
                 \<and> M h = Some es \<and> make_entry acct d None \<in> set es"
    if asm: "d \<in> set (all_distributions pages)" "gd (dist_Id d) = Some config"
      "WebACLId config = s" "parse_waf_arn s = Inr None"
      "h \<in> set (Origins config)" "\<not> is_s3_origin h"
  proof -
    have "policy_of_config config = None"
      using asm(3,4) by (simp add: policy_of_config_def)
    with entry_in_entries_due [of d "all_distributions pages" gd config h acct] asm(1,2,5)
    have mem: "make_entry acct d None \<in> set (entries_due acct gd (all_distributions pages) h)"
      by simp
    then have "entries_due acct gd (all_distributions pages) h \<noteq> []" by auto
    with asm(6) have "fold (distribution_step acct gd) (all_distributions pages) Map.empty h
        = Some (entries_due acct gd (all_distributions pages) h)"
      by (simp add: origins_map_lookup)
    with mem show ?thesis by (simp add: origins_map_built)
  qed
  have e: "\<exists>sr sr'. scan client utcnow sid regions_arg types_arg lookup = Inr sr
         \<and> scan (client\<lparr>distribution_pages := pages, get_distribution := gd\<rparr>)
              utcnow sid regions_arg types_arg lookup = Inr sr'
         \<and> errors sr' = errors sr"
  proof -
    from scan_returns [of client utcnow sid regions_arg types_arg lookup]
    obtain sr where 1: "scan client utcnow sid regions_arg types_arg lookup = Inr sr"
      and 2: "errors sr
            = errors (fst (scan_regions client utcnow
                (if lookup
                 then get_waf_associations_map (list_web_acls_with_resources client)
                        (or_default regions_arg DEFAULT_REGIONS)
                 else Map.empty)
                (or_default types_arg DEFAULT_RESOURCE_TYPES)
                (or_default regions_arg DEFAULT_REGIONS)
                (\<lparr>scan_account_id = caller_account client,
                  regions_scanned = or_default regions_arg DEFAULT_REGIONS,
                  scan_id = sid, scan_started_at = utcnow 0, scan_completed_at = None,
                  resources = [], errors = []\<rparr>, 1)))"
      by blast
    from scan_returns [of "client\<lparr>distribution_pages := pages, get_distribution := gd\<rparr>"
        utcnow sid regions_arg types_arg lookup]
    obtain sr' where 3: "scan (client\<lparr>distribution_pages := pages, get_distribution := gd\<rparr>)
              utcnow sid regions_arg types_arg lookup = Inr sr'"
      and 4: "errors sr'
            = errors (fst (scan_regions client utcnow
                (if lookup
                 then get_waf_associations_map (list_web_acls_with_resources client)
                        (or_default regions_arg DEFAULT_REGIONS)
                 else Map.empty)
                (or_default types_arg DEFAULT_RESOURCE_TYPES)
                (or_default regions_arg DEFAULT_REGIONS)
                (\<lparr>scan_account_id = caller_account client,
                  regions_scanned = or_default regions_arg DEFAULT_REGIONS,
                  scan_id = sid, scan_started_at = utcnow 0, scan_completed_at = None,
                  resources = [], errors = []\<rparr>, 1)))"
      by (auto simp: scan_regions_distributions)
    from 1 2 3 4 show ?thesis by simp
  qed
  from a b c d e show ?thesis by blast
qed

theorem malformed_policy_id_is_no_policy_witness:
  "parse_waf_arn ''not-an-arn'' = Inr None
   \<and> length (split_py ''not-an-arn'' ''/'') < 3
   \<and> parse_waf_arn ''arn:aws:wafv2:us-east-1:1:global/webacl/n/i'' = Inr (Some global_policy)
   \<and> acl_scope global_policy = ''CLOUDFRONT''
   \<and> prefix ''global'' (split_py ''arn:aws:wafv2:us-east-1:1:global/webacl/n/i'' '':'' ! 5)
   \<and> dist2 \<in> set (all_distributions [Some [dist1, dist2]])
   \<and> ''api.example.com'' \<in> set (Origins \<lparr>WebACLId = ''not-an-arn'', Origins = [''api.example.com'']\<rparr>)
   \<and> (\<exists>M es. get_cloudfront_origins_map ''1'' [Some [dist1, dist2]] example_configs = Inr M
          \<and> M ''api.example.com'' = Some es \<and> make_entry ''1'' dist2 None \<in> set es)"
proof -
  note t1 = malformed_policy_id_is_no_policy
    [where s = "''not-an-arn''" and d = dist2 and pages = "[Some [dist1, dist2]]"
       and gd = example_configs
       and config = "\<lparr>WebACLId = ''not-an-arn'', Origins = [''api.example.com'']\<rparr>"
       and h = "''api.example.com''" and acct = "''1''" and client = example_client
       and utcnow = id and sid = "''s''" and regions_arg = None and types_arg = None
       and lookup = True]
  note t2 = malformed_policy_id_is_no_policy
    [where s = "''arn:aws:wafv2:us-east-1:1:global/webacl/n/i''" and d = dist1
       and pages = "[Some [dist1, dist2]]" and gd = example_configs
       and config = "\<lparr>WebACLId = ''not-an-arn'', Origins = [''api.example.com'']\<rparr>"
       and h = "''api.example.com''" and acct = "''1''" and client = example_client
       and utcnow = id and sid = "''s''" and regions_arg = None and types_arg = None
       and lookup = True]
  have short: "length (split_py ''not-an-arn'' ''/'') < 3" by (simp add: split_py_def)
  from t1 short have none: "parse_waf_arn ''not-an-arn'' = Inr None" by blast
  have mem: "dist2 \<in> set (all_distributions [Some [dist1, dist2]])"
    by (simp add: all_distributions_def)
  have cfg: "example_configs (dist_Id dist2)
      = Some \<lparr>WebACLId = ''not-an-arn'', Origins = [''api.example.com'']\<rparr>"
    by (simp add: example_configs_def dist2_def)
  have org: "''api.example.com''
      \<in> set (Origins \<lparr>WebACLId = ''not-an-arn'', Origins = [''api.example.com'']\<rparr>)"
    by simp
  have wid: "WebACLId \<lparr>WebACLId = ''not-an-arn'', Origins = [''api.example.com'']\<rparr> = ''not-an-arn''"
    by simp
  from t1 mem cfg org wid none example_hosts(2)
  have built: "\<exists>M es. get_cloudfront_origins_map ''1'' [Some [dist1, dist2]] example_configs = Inr M
          \<and> M ''api.example.com'' = Some es \<and> make_entry ''1'' dist2 None \<in> set es"
    by blast
  from t2 parse_example_arn
  have sc: "acl_scope global_policy
      = (if prefix ''global'' (split_py ''arn:aws:wafv2:us-east-1:1:global/webacl/n/i'' '':'' ! 5)
         then ''CLOUDFRONT'' else ''REGIONAL'')"
    by blast
  have pre: "prefix ''global'' (split_py ''arn:aws:wafv2:us-east-1:1:global/webacl/n/i'' '':'' ! 5)"
    by (simp add: split_py_def)
  from sc pre have cf: "acl_scope global_policy = ''CLOUDFRONT''" by simp
  from none short parse_example_arn cf pre mem org built show ?thesis by blast
qed

section \<open>Properties of the Hostname Deriver\<close>

lemma split_from_not_Nil: "split_from sep cur s \<noteq> []"
  by (induction s arbitrary: cur) auto

lemma split_last_after_marker:
  assumes "CHR ''/'' \<notin> set pre" and "CHR ''/'' \<notin> set rest" and "hd marker = CHR ''/''"
    and "marker \<noteq> []"
  shows "last (split_from marker cur (pre @ marker @ rest)) = rest"
  using assms(1)
proof (induction pre arbitrary: cur)
  case Nil
  have no_match: "\<And>c. last (split_from marker c rest) = rev c @ rest"
    using assms(2)
  proof (induction rest)
    case Nil
    then show ?case by simp
  next
    case (Cons x xs)
    from Cons.prems assms(3,4) have "\<not> prefix marker (x # xs)"
      by (cases marker) auto
    with Cons show ?case by simp
  qed
  obtain m ms where marker: "marker = m # ms" using assms(4) by (cases marker) auto
  have "split_from marker cur (marker @ rest) = rev cur # split_from marker [] rest"
    by (simp add: marker)
  then show ?case by (simp add: no_match split_from_not_Nil)
next
  case (Cons p pre)
  from Cons.prems assms(3,4) have "\<not> prefix marker (p # pre @ marker @ rest)"
    by (cases marker) auto
  with Cons show ?case by simp
qed


lemma last_split_after_marker:
  "CHR ''/'' \<notin> set pre \<Longrightarrow> CHR ''/'' \<notin> set rest \<Longrightarrow> hd marker = CHR ''/'' \<Longrightarrow>
     marker \<noteq> [] \<Longrightarrow> last (split_py (pre @ marker @ rest) marker) = rest"
  by (simp add: split_py_def split_last_after_marker)

text \<open>
  C9. The hostname deriver returns \<^verbatim>\<open>{apiId}.execute-api.{region}.amazonaws.com\<close>
  for an HTTP gateway, with the API id the last piece of the identifier split at
  \<^verbatim>\<open>/apis/\<close>, and for a REST gateway, with the last piece of the split at
  \<^verbatim>\<open>/restapis/\<close>: for an identifier made of a part without slash, the marker and
  an id without slash, that piece is the id. For a load balancer it returns the DNS
  name of the first balancer the lookup answers with, and \<^verbatim>\<open>None\<close> when the lookup
  raises or answers with none. For every other resource type it returns \<^verbatim>\<open>None\<close>.
\<close>

theorem hostname_derivation:
  "(resource_type r = API_GATEWAY_HTTP \<longrightarrow>
      match_resource_to_origin dlb r
        = Some (last (split_py (arn r) ''/apis/'') @ ''.execute-api.'' @ region r @ ''.amazonaws.com''))
   \<and> (resource_type r = API_GATEWAY_HTTP \<and> arn r = pre @ ''/apis/'' @ api_id
        \<and> CHR ''/'' \<notin> set pre \<and> CHR ''/'' \<notin> set api_id \<longrightarrow>
      match_resource_to_origin dlb r
        = Some (api_id @ ''.execute-api.'' @ region r @ ''.amazonaws.com''))
   \<and> (resource_type r = API_GATEWAY_REST \<longrightarrow>
      match_resource_to_origin dlb r
        = Some (last (split_py (arn r) ''/restapis/'') @ ''.execute-api.'' @ region r
                @ ''.amazonaws.com''))
   \<and> (resource_type r = API_GATEWAY_REST \<and> arn r = pre @ ''/restapis/'' @ api_id
        \<and> CHR ''/'' \<notin> set pre \<and> CHR ''/'' \<notin> set api_id \<longrightarrow>
      match_resource_to_origin dlb r
        = Some (api_id @ ''.execute-api.'' @ region r @ ''.amazonaws.com''))
   \<and> (resource_type r = ALB \<longrightarrow>
      match_resource_to_origin dlb r
        = (case dlb (region r) (arn r) of
             None \<Rightarrow> None | Some [] \<Rightarrow> None | Some (dns_name # _) \<Rightarrow> Some dns_name))
   \<and> (resource_type r \<notin> {API_GATEWAY_HTTP, API_GATEWAY_REST, ALB} \<longrightarrow>
      match_resource_to_origin dlb r = None)"
proof -
  have http: "last (split_py (pre @ ''/apis/'' @ api_id) ''/apis/'') = api_id"
    if "CHR ''/'' \<notin> set pre" "CHR ''/'' \<notin> set api_id"
    using that by (intro last_split_after_marker) simp_all
  have rest: "last (split_py (pre @ ''/restapis/'' @ api_id) ''/restapis/'') = api_id"
    if "CHR ''/'' \<notin> set pre" "CHR ''/'' \<notin> set api_id"
    using that by (intro last_split_after_marker) simp_all
  show ?thesis
    using http rest
    by (auto simp: match_resource_to_origin_def get_alb_dns_name_def Let_def)
qed


theorem hostname_derivation_witness:
  "resource_type (example_resource API_GATEWAY_HTTP ''arn:aws:apigateway:us-east-1::/apis/o5yl'')
     = API_GATEWAY_HTTP
   \<and> arn (example_resource API_GATEWAY_HTTP ''arn:aws:apigateway:us-east-1::/apis/o5yl'')
       = ''arn:aws:apigateway:us-east-1::'' @ ''/apis/'' @ ''o5yl''
   \<and> CHR ''/'' \<notin> set ''arn:aws:apigateway:us-east-1::'' \<and> CHR ''/'' \<notin> set ''o5yl''
   \<and> match_resource_to_origin example_lb_lookup
         (example_resource API_GATEWAY_HTTP ''arn:aws:apigateway:us-east-1::/apis/o5yl'')
       = Some ''o5yl.execute-api.us-east-1.amazonaws.com''
   \<and> match_resource_to_origin example_lb_lookup
         (example_resource API_GATEWAY_REST ''arn:aws:apigateway:us-east-1::/restapis/1jnx'')
       = Some ''1jnx.execute-api.us-east-1.amazonaws.com''
   \<and> match_resource_to_origin example_lb_lookup (example_resource ALB ''lb1'')
       = Some ''lb1.elb.amazonaws.com''
   \<and> match_resource_to_origin example_lb_lookup (example_resource ALB ''lb3'') = None
   \<and> resource_type (example_resource COGNITO ''pool'') \<notin> {API_GATEWAY_HTTP, API_GATEWAY_REST, ALB}
   \<and> match_resource_to_origin example_lb_lookup (example_resource COGNITO ''pool'') = None"
proof -
  note http = hostname_derivation
    [where r = "example_resource API_GATEWAY_HTTP ''arn:aws:apigateway:us-east-1::/apis/o5yl''"
       and pre = "''arn:aws:apigateway:us-east-1::''" and api_id = "''o5yl''"
       and dlb = example_lb_lookup]
  note rest = hostname_derivation
    [where r = "example_resource API_GATEWAY_REST ''arn:aws:apigateway:us-east-1::/restapis/1jnx''"
       and pre = "''arn:aws:apigateway:us-east-1::''" and api_id = "''1jnx''"
       and dlb = example_lb_lookup]
  note lb1 = hostname_derivation
    [where r = "example_resource ALB ''lb1''" and dlb = example_lb_lookup]
  note lb3 = hostname_derivation
    [where r = "example_resource ALB ''lb3''" and dlb = example_lb_lookup]
  note cog = hostname_derivation
    [where r = "example_resource COGNITO ''pool''" and dlb = example_lb_lookup]
  have f: "resource_type (example_resource API_GATEWAY_HTTP ''arn:aws:apigateway:us-east-1::/apis/o5yl'')
     = API_GATEWAY_HTTP"
    by (simp add: example_resource_def)
  have g: "arn (example_resource API_GATEWAY_HTTP ''arn:aws:apigateway:us-east-1::/apis/o5yl'')
       = ''arn:aws:apigateway:us-east-1::'' @ ''/apis/'' @ ''o5yl''"
    by (simp add: example_resource_def)
  have h: "CHR ''/'' \<notin> set ''arn:aws:apigateway:us-east-1::'' \<and> CHR ''/'' \<notin> set ''o5yl''"
    by simp
  from http f g h have "match_resource_to_origin example_lb_lookup
         (example_resource API_GATEWAY_HTTP ''arn:aws:apigateway:us-east-1::/apis/o5yl'')
       = Some (''o5yl'' @ ''.execute-api.''
               @ region (example_resource API_GATEWAY_HTTP ''arn:aws:apigateway:us-east-1::/apis/o5yl'')
               @ ''.amazonaws.com'')"
    by blast
  then have a: "match_resource_to_origin example_lb_lookup
         (example_resource API_GATEWAY_HTTP ''arn:aws:apigateway:us-east-1::/apis/o5yl'')
       = Some ''o5yl.execute-api.us-east-1.amazonaws.com''"
    by (simp add: example_resource_def)
  have f2: "resource_type (example_resource API_GATEWAY_REST ''arn:aws:apigateway:us-east-1::/restapis/1jnx'')
     = API_GATEWAY_REST"
    by (simp add: example_resource_def)
  have g2: "arn (example_resource API_GATEWAY_REST ''arn:aws:apigateway:us-east-1::/restapis/1jnx'')
       = ''arn:aws:apigateway:us-east-1::'' @ ''/restapis/'' @ ''1jnx''"
    by (simp add: example_resource_def)
  have h2: "CHR ''/'' \<notin> set ''arn:aws:apigateway:us-east-1::'' \<and> CHR ''/'' \<notin> set ''1jnx''"
    by simp
  from rest f2 g2 h2 have "match_resource_to_origin example_lb_lookup
         (example_resource API_GATEWAY_REST ''arn:aws:apigateway:us-east-1::/restapis/1jnx'')
       = Some (''1jnx'' @ ''.execute-api.''
               @ region (example_resource API_GATEWAY_REST ''arn:aws:apigateway:us-east-1::/restapis/1jnx'')
               @ ''.amazonaws.com'')"
    by blast
  then have b: "match_resource_to_origin example_lb_lookup
         (example_resource API_GATEWAY_REST ''arn:aws:apigateway:us-east-1::/restapis/1jnx'')
       = Some ''1jnx.execute-api.us-east-1.amazonaws.com''"
    by (simp add: example_resource_def)
  have c: "match_resource_to_origin example_lb_lookup (example_resource ALB ''lb1'')
       = Some ''lb1.elb.amazonaws.com''"
    using lb1 by (simp add: example_resource_def example_lb_lookup_def)
  have d: "match_resource_to_origin example_lb_lookup (example_resource ALB ''lb3'') = None"
    using lb3 by (simp add: example_resource_def example_lb_lookup_def)
  have e: "match_resource_to_origin example_lb_lookup (example_resource COGNITO ''pool'') = None"
    using cog by (simp add: example_resource_def)
  have i: "resource_type (example_resource COGNITO ''pool'') \<notin> {API_GATEWAY_HTTP, API_GATEWAY_REST, ALB}"
    by (simp add: example_resource_def)
  from a b c d e f g h i show ?thesis by blast
qed

section \<open>Properties of the Fronted-By Propagator\<close>

lemma attach_first_waf_find:
  "attach_first_waf ds r =
     (case find (\<lambda>d. cf_web_acl d \<noteq> None) ds of
        None \<Rightarrow> r
      | Some d \<Rightarrow>
          r\<lparr>fronted_by_resource_arn := Some (cloudfront_arn d),
            fronted_by_waf := cf_web_acl d,
            fronted_by_notes :=
              Some (''Fronted by CloudFront Distribution '' @ cloudfront_arn d
                    @ '' with WAF '' @ acl_name (the (cf_web_acl d)))\<rparr>)"
  by (induction ds) (auto split: option.splits)

text \<open>
  C4. The propagator keeps the length of the resource list. Take the resource at any
  position. If it is an HTTP gateway, a REST gateway or a load balancer without direct
  policy whose derived hostname exists, is not empty and has a non-empty entry list in
  the origin index, then it receives the fronting identifier, the policy and the note
  of the first entry of that list that carries a policy, and it is left as it was when
  no entry carries one. A resource of another type, or with a direct policy, is left
  as it was.
\<close>

theorem fronted_by_propagation:
  assumes "i < length (resources sr)"
  shows "length (resources (enrich_fronted_by_relationships dlb origins sr)) = length (resources sr)
    \<and> (let r = resources sr ! i;
            r' = resources (enrich_fronted_by_relationships dlb origins sr) ! i
        in (resource_type r \<in> {API_GATEWAY_HTTP, API_GATEWAY_REST, ALB} \<and> web_acl r = None
              \<and> match_resource_to_origin dlb r = Some h \<and> h \<noteq> []
              \<and> origins h = Some ds \<and> ds \<noteq> [] \<longrightarrow>
            (\<forall>d w. find (\<lambda>d. cf_web_acl d \<noteq> None) ds = Some d \<and> cf_web_acl d = Some w \<longrightarrow>
                r' = r\<lparr>fronted_by_resource_arn := Some (cloudfront_arn d),
                       fronted_by_waf := Some w,
                       fronted_by_notes :=
                         Some (''Fronted by CloudFront Distribution '' @ cloudfront_arn d
                               @ '' with WAF '' @ acl_name w)\<rparr>)
            \<and> (find (\<lambda>d. cf_web_acl d \<noteq> None) ds = None \<longrightarrow> r' = r))
          \<and> (resource_type r \<notin> {API_GATEWAY_HTTP, API_GATEWAY_REST, ALB} \<or> web_acl r \<noteq> None
                \<longrightarrow> r' = r))"
proof -
  define r where "r = resources sr ! i"
  have nth: "resources (enrich_fronted_by_relationships dlb origins sr) ! i
      = enrich_resource dlb origins r"
    using assms by (simp add: enrich_fronted_by_relationships_def r_def)
  have len: "length (resources (enrich_fronted_by_relationships dlb origins sr))
      = length (resources sr)"
    by (simp add: enrich_fronted_by_relationships_def)
  have skip: "enrich_resource dlb origins r = r"
    if "resource_type r \<notin> {API_GATEWAY_HTTP, API_GATEWAY_REST, ALB} \<or> web_acl r \<noteq> None"
    using that by (auto simp: enrich_resource_def truthy_acl_def)
  have hit: "enrich_resource dlb origins r = attach_first_waf ds r"
    if "resource_type r \<in> {API_GATEWAY_HTTP, API_GATEWAY_REST, ALB}" "web_acl r = None"
      "match_resource_to_origin dlb r = Some h" "h \<noteq> []" "origins h = Some ds" "ds \<noteq> []"
    using that by (simp add: enrich_resource_def truthy_acl_def)
  show ?thesis
    using len skip hit by (auto simp: Let_def nth r_def [symmetric] attach_first_waf_find)
qed


lemma fronted_scan_resources:
  "resources fronted_scan ! 0 = example_resource ALB ''lb1''"
  "resources fronted_scan ! 1 = example_resource COGNITO ''pool''"
  "resources fronted_scan ! 2
     = example_resource API_GATEWAY_HTTP ''arn:aws:apigateway:us-east-1::/apis/o5yl''"
  "length (resources fronted_scan) = 3"
  by (simp_all add: fronted_scan_def example_scan_result_def)

theorem fronted_by_propagation_witness:
  "0 < length (resources fronted_scan)
   \<and> match_resource_to_origin example_lb_lookup (resources fronted_scan ! 0)
       = Some ''lb1.elb.amazonaws.com''
   \<and> example_origins ''lb1.elb.amazonaws.com''
       = Some [make_entry ''1'' dist2 None, make_entry ''1'' dist1 (Some global_policy)]
   \<and> resources (enrich_fronted_by_relationships example_lb_lookup example_origins fronted_scan) ! 0
       = (example_resource ALB ''lb1'')
           \<lparr>fronted_by_resource_arn := Some ''arn:aws:cloudfront::1:distribution/E1'',
            fronted_by_waf := Some global_policy,
            fronted_by_notes :=
              Some ''Fronted by CloudFront Distribution arn:aws:cloudfront::1:distribution/E1 with WAF n''\<rparr>
   \<and> resources (enrich_fronted_by_relationships example_lb_lookup example_origins fronted_scan) ! 1
       = example_resource COGNITO ''pool''
   \<and> example_origins ''o5yl.execute-api.us-east-1.amazonaws.com''
       = Some [make_entry ''1'' dist2 None]
   \<and> resources (enrich_fronted_by_relationships example_lb_lookup example_origins fronted_scan) ! 2
       = example_resource API_GATEWAY_HTTP ''arn:aws:apigateway:us-east-1::/apis/o5yl''"
proof -
  let ?out = "resources (enrich_fronted_by_relationships example_lb_lookup example_origins fronted_scan)"
  let ?lb = "[make_entry ''1'' dist2 None, make_entry ''1'' dist1 (Some global_policy)]"
  have i0: "0 < length (resources fronted_scan)"
    and i1: "1 < length (resources fronted_scan)"
    and i2: "2 < length (resources fronted_scan)"
    by (simp_all add: fronted_scan_resources)
  note t0 = fronted_by_propagation
    [OF i0, where dlb = example_lb_lookup and origins = example_origins
       and h = "''lb1.elb.amazonaws.com''" and ds = ?lb, unfolded Let_def]
  note t1 = fronted_by_propagation
    [OF i1, where dlb = example_lb_lookup and origins = example_origins
       and h = "''lb1.elb.amazonaws.com''" and ds = ?lb, unfolded Let_def]
  note t2 = fronted_by_propagation
    [OF i2, where dlb = example_lb_lookup and origins = example_origins
       and h = "''o5yl.execute-api.us-east-1.amazonaws.com''"
       and ds = "[make_entry ''1'' dist2 None]", unfolded Let_def]
  have m0: "match_resource_to_origin example_lb_lookup (resources fronted_scan ! 0)
       = Some ''lb1.elb.amazonaws.com''"
    by (simp add: fronted_scan_resources match_resource_to_origin_def get_alb_dns_name_def
        example_resource_def example_lb_lookup_def)
  have o0: "example_origins ''lb1.elb.amazonaws.com'' = Some ?lb"
    by (simp add: example_origins_def)
  have p0: "resource_type (resources fronted_scan ! 0) \<in> {API_GATEWAY_HTTP, API_GATEWAY_REST, ALB}"
    "web_acl (resources fronted_scan ! 0) = None" "''lb1.elb.amazonaws.com'' \<noteq> []" "?lb \<noteq> []"
    by (simp_all add: fronted_scan_resources example_resource_def)
  have f0: "find (\<lambda>d. cf_web_acl d \<noteq> None) ?lb = Some (make_entry ''1'' dist1 (Some global_policy))"
    "cf_web_acl (make_entry ''1'' dist1 (Some global_policy)) = Some global_policy"
    by (simp_all add: make_entry_def)
  from t0 m0 o0 p0 f0 have "?out ! 0
      = (resources fronted_scan ! 0)
          \<lparr>fronted_by_resource_arn := Some (cloudfront_arn (make_entry ''1'' dist1 (Some global_policy))),
           fronted_by_waf := Some global_policy,
           fronted_by_notes :=
             Some (''Fronted by CloudFront Distribution ''
                   @ cloudfront_arn (make_entry ''1'' dist1 (Some global_policy))
                   @ '' with WAF '' @ acl_name global_policy)\<rparr>"
    by blast
  then have r0: "?out ! 0
       = (example_resource ALB ''lb1'')
           \<lparr>fronted_by_resource_arn := Some ''arn:aws:cloudfront::1:distribution/E1'',
            fronted_by_waf := Some global_policy,
            fronted_by_notes :=
              Some ''Fronted by CloudFront Distribution arn:aws:cloudfront::1:distribution/E1 with WAF n''\<rparr>"
    by (simp add: fronted_scan_resources make_entry_def dist1_def global_policy_def)
  have p1: "resource_type (resources fronted_scan ! 1) \<notin> {API_GATEWAY_HTTP, API_GATEWAY_REST, ALB}"
    unfolding fronted_scan_resources by (simp add: example_resource_def)
  from t1 p1 have "?out ! 1 = resources fronted_scan ! 1" by blast
  then have r1: "?out ! 1 = example_resource COGNITO ''pool''"
    by (simp only: fronted_scan_resources)
  have m2: "match_resource_to_origin example_lb_lookup (resources fronted_scan ! 2)
       = Some ''o5yl.execute-api.us-east-1.amazonaws.com''"
    by (simp add: fronted_scan_resources match_resource_to_origin_def example_resource_def
        split_py_def)
  have o2: "example_origins ''o5yl.execute-api.us-east-1.amazonaws.com''
       = Some [make_entry ''1'' dist2 None]"
    by (simp add: example_origins_def)
  have p2: "resource_type (resources fronted_scan ! 2) \<in> {API_GATEWAY_HTTP, API_GATEWAY_REST, ALB}"
    "web_acl (resources fronted_scan ! 2) = None"
    "''o5yl.execute-api.us-east-1.amazonaws.com'' \<noteq> []" "[make_entry ''1'' dist2 None] \<noteq> []"
    by (simp_all add: fronted_scan_resources example_resource_def)
  have f2: "find (\<lambda>d. cf_web_acl d \<noteq> None) [make_entry ''1'' dist2 None] = None"
    by (simp add: make_entry_def)
  from t2 m2 o2 p2 f2 have "?out ! 2 = resources fronted_scan ! 2" by blast
  then have r2: "?out ! 2
      = example_resource API_GATEWAY_HTTP ''arn:aws:apigateway:us-east-1::/apis/o5yl''"
    by (simp add: fronted_scan_resources)
  from i0 m0 o0 r0 r1 o2 r2 show ?thesis by blast
qed


section \<open>Properties of the Scanner\<close>

lemma scan_region_append:
  "scan_region client utcnow wm (xs @ ys) reg st
     = scan_region client utcnow wm ys reg (scan_region client utcnow wm xs reg st)"
  by (simp add: scan_region_def)

lemma scan_region_Cons:
  "scan_region client utcnow wm (rt # rts) reg st
     = scan_region client utcnow wm rts reg (scan_resource_type client utcnow wm reg rt st)"
  by (simp add: scan_region_def)

lemma scan_regions_append:
  "scan_regions client utcnow wm rts (xs @ ys) st
     = scan_regions client utcnow wm rts ys (scan_regions client utcnow wm rts xs st)"
  by (simp add: scan_regions_def)

lemma scan_regions_Cons:
  "scan_regions client utcnow wm rts (reg # regs) st
     = scan_regions client utcnow wm rts regs (scan_region client utcnow wm rts reg st)"
  by (simp add: scan_regions_def)

lemma add_listed_resources_errors:
  "errors (fst (add_listed_resources utcnow wm rs st)) = errors (fst st)"
  by (induction utcnow wm rs st rule: add_listed_resources.induct)
     (simp_all add: Let_def add_resource_def)

lemma scan_resource_type_keeps_errors:
  "x \<in> set (errors (fst st)) \<Longrightarrow> x \<in> set (errors (fst (scan_resource_type client utcnow wm reg rt st)))"
  by (cases st) (auto simp: add_listed_resources_errors add_error_def split: sum.splits)

lemma scan_region_keeps_errors:
  "x \<in> set (errors (fst st)) \<Longrightarrow> x \<in> set (errors (fst (scan_region client utcnow wm rts reg st)))"
proof (induction rts arbitrary: st)
  case Nil
  then show ?case by (simp add: scan_region_def)
next
  case (Cons rt rts)
  then show ?case by (simp add: scan_region_Cons scan_resource_type_keeps_errors)
qed

lemma scan_regions_keeps_errors:
  "x \<in> set (errors (fst st)) \<Longrightarrow> x \<in> set (errors (fst (scan_regions client utcnow wm rts regs st)))"
proof (induction regs arbitrary: st)
  case Nil
  then show ?case by (simp add: scan_regions_def)
next
  case (Cons reg regs)
  then show ?case by (simp add: scan_regions_Cons scan_region_keeps_errors)
qed

text \<open>
  C8. When the enumeration call of a resource type and region raises, scanning that
  pair appends one error record (the region, the resource type, the message of the
  exception, the clock reading) and leaves the resources as they are. The scan of all
  regions passes through that pair and goes on with the remaining types of the region
  and the remaining regions. The whole scan returns a ScanResult whose error list
  holds the record.
\<close>

theorem enumeration_failure_is_recorded:
  assumes fail: "list_resources client rt reg = Inl e"
    and called: "\<not> (rt = CLOUDFRONT \<and> reg \<noteq> ''us-east-1'')"
  shows "scan_resource_type client utcnow wm reg rt (sr, n)
           = (sr\<lparr>errors := errors sr @
                  [\<lparr>err_region = reg, err_resource_type = Some (rt_value rt),
                    err_message = str_exc e, err_timestamp = utcnow n\<rparr>]\<rparr>, Suc n)
    \<and> resources (fst (scan_resource_type client utcnow wm reg rt (sr, n))) = resources sr
    \<and> scan_regions client utcnow wm (tpre @ rt # tpost) (rpre @ reg # rpost) st
        = scan_regions client utcnow wm (tpre @ rt # tpost) rpost
            (scan_region client utcnow wm tpost reg
               (scan_resource_type client utcnow wm reg rt
                  (scan_region client utcnow wm tpre reg
                     (scan_regions client utcnow wm (tpre @ rt # tpost) rpre st))))
    \<and> (or_default regions_arg DEFAULT_REGIONS = rpre @ reg # rpost
        \<and> or_default types_arg DEFAULT_RESOURCE_TYPES = tpre @ rt # tpost \<longrightarrow>
        (\<exists>sr' k. scan client utcnow sid regions_arg types_arg lookup = Inr sr'
           \<and> \<lparr>err_region = reg, err_resource_type = Some (rt_value rt),
               err_message = str_exc e, err_timestamp = utcnow k\<rparr> \<in> set (errors sr')))"
proof -
  have step: "scan_resource_type client utcnow wm' reg rt (s, k)
           = (s\<lparr>errors := errors s @
                  [\<lparr>err_region = reg, err_resource_type = Some (rt_value rt),
                    err_message = str_exc e, err_timestamp = utcnow k\<rparr>]\<rparr>, Suc k)"
    for wm' s k
    using fail called by (auto simp: add_error_def)
  have loop: "scan_regions client utcnow wm' (tpre @ rt # tpost) (rpre @ reg # rpost) st'
        = scan_regions client utcnow wm' (tpre @ rt # tpost) rpost
            (scan_region client utcnow wm' tpost reg
               (scan_resource_type client utcnow wm' reg rt
                  (scan_region client utcnow wm' tpre reg
                     (scan_regions client utcnow wm' (tpre @ rt # tpost) rpre st'))))"
    for wm' st'
    by (simp add: scan_regions_append scan_regions_Cons scan_region_append scan_region_Cons)
  have final: "\<exists>sr' k. scan client utcnow sid regions_arg types_arg lookup = Inr sr'
           \<and> \<lparr>err_region = reg, err_resource_type = Some (rt_value rt),
               err_message = str_exc e, err_timestamp = utcnow k\<rparr> \<in> set (errors sr')"
    if regs: "or_default regions_arg DEFAULT_REGIONS = rpre @ reg # rpost"
      and types: "or_default types_arg DEFAULT_RESOURCE_TYPES = tpre @ rt # tpost"
  proof -
    define wm' where "wm' = (if lookup
                 then get_waf_associations_map (list_web_acls_with_resources client)
                        (or_default regions_arg DEFAULT_REGIONS)
                 else Map.empty)"
    define init where "init = (\<lparr>scan_account_id = caller_account client,
                  regions_scanned = or_default regions_arg DEFAULT_REGIONS,
                  scan_id = sid, scan_started_at = utcnow 0, scan_completed_at = None,
                  resources = [], errors = []\<rparr>, 1::nat)"
    from scan_returns [of client utcnow sid regions_arg types_arg lookup]
    obtain sr' where ret: "scan client utcnow sid regions_arg types_arg lookup = Inr sr'"
      and errs: "errors sr' = errors (fst (scan_regions client utcnow wm'
                (or_default types_arg DEFAULT_RESOURCE_TYPES)
                (or_default regions_arg DEFAULT_REGIONS) init))"
      unfolding wm'_def init_def by blast
    obtain s k where before: "scan_region client utcnow wm' tpre reg
        (scan_regions client utcnow wm' (tpre @ rt # tpost) rpre init) = (s, k)"
      by (cases "scan_region client utcnow wm' tpre reg
        (scan_regions client utcnow wm' (tpre @ rt # tpost) rpre init)")
    let ?rec = "\<lparr>err_region = reg, err_resource_type = Some (rt_value rt),
               err_message = str_exc e, err_timestamp = utcnow k\<rparr>"
    have "?rec \<in> set (errors (fst (scan_resource_type client utcnow wm' reg rt (s, k))))"
      by (subst step) simp
    then have "?rec \<in> set (errors (fst (scan_regions client utcnow wm' (tpre @ rt # tpost) rpost
            (scan_region client utcnow wm' tpost reg
               (scan_resource_type client utcnow wm' reg rt (s, k))))))"
      by (intro scan_regions_keeps_errors scan_region_keeps_errors)
    then have "?rec \<in> set (errors sr')"
      by (simp add: errs regs types loop before)
    with ret show ?thesis by blast
  qed
  have same: "resources (fst (scan_resource_type client utcnow wm reg rt (sr, n))) = resources sr"
    by (subst step) simp
  from step [of wm sr n] same loop [of wm st] final show ?thesis by blast
qed


theorem enumeration_failure_is_recorded_witness:
  "list_resources example_client ALB ''us-east-1'' = Inl (OtherException ''throttled'')
   \<and> \<not> (ALB = CLOUDFRONT \<and> ''us-east-1'' \<noteq> ''us-east-1'')
   \<and> or_default None DEFAULT_REGIONS = [] @ ''us-east-1'' # []
   \<and> or_default None DEFAULT_RESOURCE_TYPES
       = [] @ ALB # [CLOUDFRONT, API_GATEWAY_REST, API_GATEWAY_HTTP, APPSYNC, COGNITO,
                     APP_RUNNER, VERIFIED_ACCESS]
   \<and> scan_resource_type example_client id Map.empty ''us-east-1'' ALB (example_scan_result [], 1)
       = ((example_scan_result [])
            \<lparr>errors := errors (example_scan_result []) @
               [\<lparr>err_region = ''us-east-1'', err_resource_type = Some (rt_value ALB),
                 err_message = str_exc (OtherException ''throttled''), err_timestamp = id 1\<rparr>]\<rparr>,
          Suc 1)
   \<and> (\<exists>sr' k. scan example_client id ''s'' None None True = Inr sr'
         \<and> \<lparr>err_region = ''us-east-1'', err_resource_type = Some (rt_value ALB),
             err_message = str_exc (OtherException ''throttled''), err_timestamp = id k\<rparr>
            \<in> set (errors sr'))"
proof -
  have fail: "list_resources example_client ALB ''us-east-1'' = Inl (OtherException ''throttled'')"
    by (simp add: example_client_def example_listing_def)
  have called: "\<not> (ALB = CLOUDFRONT \<and> ''us-east-1'' \<noteq> ''us-east-1'')"
    by simp
  have regs: "or_default None DEFAULT_REGIONS = [] @ ''us-east-1'' # []"
    by (simp add: or_default_def DEFAULT_REGIONS_def)
  have types: "or_default None DEFAULT_RESOURCE_TYPES
       = [] @ ALB # [CLOUDFRONT, API_GATEWAY_REST, API_GATEWAY_HTTP, APPSYNC, COGNITO,
                     APP_RUNNER, VERIFIED_ACCESS]"
    by (simp add: or_default_def DEFAULT_RESOURCE_TYPES_def)
  note t = enumeration_failure_is_recorded
    [OF fail called, where utcnow = id and wm = Map.empty and sr = "example_scan_result []"
       and n = 1 and regions_arg = None and types_arg = None and rpre = "[]" and rpost = "[]"
       and tpre = "[]"
       and tpost = "[CLOUDFRONT, API_GATEWAY_REST, API_GATEWAY_HTTP, APPSYNC, COGNITO,
                     APP_RUNNER, VERIFIED_ACCESS]"
       and sid = "''s''" and lookup = True]
  from t have step: "scan_resource_type example_client id Map.empty ''us-east-1'' ALB
         (example_scan_result [], 1)
       = ((example_scan_result [])
            \<lparr>errors := errors (example_scan_result []) @
               [\<lparr>err_region = ''us-east-1'', err_resource_type = Some (rt_value ALB),
                 err_message = str_exc (OtherException ''throttled''), err_timestamp = id 1\<rparr>]\<rparr>,
          Suc 1)"
    by blast
  from t regs types
  have final: "\<exists>sr' k. scan example_client id ''s'' None None True = Inr sr'
         \<and> \<lparr>err_region = ''us-east-1'', err_resource_type = Some (rt_value ALB),
             err_message = str_exc (OtherException ''throttled''), err_timestamp = id k\<rparr>
            \<in> set (errors sr')"
    by blast
  from fail called regs types step final show ?thesis by blast
qed

end
